theory Spec2Isabelle
  imports Main "HOL-Library.AList"
begin

section \<open>Python values used by the deployer\<close>

text \<open>
  Python's \<^verbatim>\<open>str(n)\<close> (which is what an f-string applies to an \<^verbatim>\<open>int\<close>): the decimal
  digits without leading zeros, \<^verbatim>\<open>0\<close> for zero, a leading minus sign for a negative
  number.
\<close>

definition digit_char :: "nat \<Rightarrow> char" where
  "digit_char d = ''0123456789'' ! d"

function str_nat :: "nat \<Rightarrow> string" where
  "str_nat n = (if n < 10 then [digit_char n] else str_nat (n div 10) @ [digit_char (n mod 10)])"
  by pat_completeness auto
termination
  by (relation "measure (\<lambda>n. n)") auto

declare str_nat.simps [simp del]

definition str_int :: "int \<Rightarrow> string" where
  "str_int i = (if i < 0 then CHR ''-'' # str_nat (nat (- i)) else str_nat (nat i))"

text \<open>
  Reading a decimal numeral back (Python's \<^verbatim>\<open>int(s)\<close> on ASCII digits with an optional
  sign); it is used on the digits the port pattern captures and to state that
  \<open>str_int\<close> is the decimal rendering.
\<close>

definition is_digit :: "char \<Rightarrow> bool" where
  "is_digit c = (c \<in> set ''0123456789'')"

definition digit_val :: "char \<Rightarrow> nat" where
  "digit_val c = of_char c - 48"

definition nat_of_digits :: "string \<Rightarrow> nat" where
  "nat_of_digits ds = foldl (\<lambda>acc c. 10 * acc + digit_val c) 0 ds"

definition int_of_str :: "string \<Rightarrow> int" where
  "int_of_str s = (case s of
       c # ds \<Rightarrow> (if c = CHR ''-'' then - int (nat_of_digits ds) else int (nat_of_digits s))
     | [] \<Rightarrow> 0)"

text \<open>
  Python's \<^verbatim>\<open>range(start, stop, step)\<close> for a positive step:
  \<open>start, start + step, \<dots>\<close> while below \<open>stop\<close>.
\<close>

definition py_range :: "int \<Rightarrow> int \<Rightarrow> int \<Rightarrow> int list" where
  "py_range start stop step =
     map (\<lambda>k. start + step * int k) [0..<nat ((stop - start + step - 1) div step)]"

section \<open>Container names\<close>

text \<open>
  \<^verbatim>\<open>
  @staticmethod
  def get_container_name(resource_name: str, container_index: int) -> str:
      if container_index == 0:
          return resource_name
      else:
          return f'{resource_name}-{container_index}'
  \<close>
\<close>

definition get_container_name :: "string \<Rightarrow> int \<Rightarrow> string" where
  "get_container_name resource_name container_index =
     (if container_index = 0 then resource_name
      else resource_name @ ''-'' @ str_int container_index)"

section \<open>Scanning for an unoccupied port\<close>

text \<open>
  The last three lines of \<^verbatim>\<open>_get_next_fatman_port\<close>, on the set of occupied ports
  collected before them:
  \<^verbatim>\<open>
  for port in range(7000, 8000, 10):
      if port not in occupied_ports:
          return port
  return 8000
  \<close>
\<close>

definition next_free_port :: "int set \<Rightarrow> int" where
  "next_free_port occupied_ports =
     (case find (\<lambda>port. port \<notin> occupied_ports) (py_range 7000 8000 10) of
        Some port \<Rightarrow> port
      | None \<Rightarrow> 8000)"

section \<open>Text of the daemon's output\<close>

text \<open>
  A model string stands for a Python \<^verbatim>\<open>str\<close> whose code points are below 256.

  \<^verbatim>\<open>str.splitlines()\<close>: a line ends at \<^verbatim>\<open>\n\<close>, \<^verbatim>\<open>\r\<close>, \<^verbatim>\<open>\r\n\<close>, \<^verbatim>\<open>\x0b\<close>, \<^verbatim>\<open>\x0c\<close>,
  \<^verbatim>\<open>\x1c\<close>, \<^verbatim>\<open>\x1d\<close>, \<^verbatim>\<open>\x1e\<close> or \<^verbatim>\<open>\x85\<close>; the breaks are dropped, and a break at the very end
  opens no further line.
\<close>

definition is_linebreak :: "char \<Rightarrow> bool" where
  "is_linebreak c = (c \<in> set [CHR 0x0A, CHR 0x0D, CHR 0x0B, CHR 0x0C, CHR 0x1C, CHR 0x1D, CHR 0x1E, CHR 0x85])"

fun splitlines_from :: "string \<Rightarrow> string \<Rightarrow> string list" where
  "splitlines_from cur [] = (if cur = [] then [] else [cur])"
| "splitlines_from cur [c] =
     (if is_linebreak c then [cur] else [cur @ [c]])"
| "splitlines_from cur (c # d # cs) =
     (if c = CHR 0x0D \<and> d = CHR 0x0A then cur # splitlines_from [] cs
      else if is_linebreak c then cur # splitlines_from [] (d # cs)
      else splitlines_from (cur @ [c]) (d # cs))"

definition splitlines :: "string \<Rightarrow> string list" where
  "splitlines s = splitlines_from [] s"

text \<open>\<^verbatim>\<open>str.strip()\<close>: leading and trailing whitespace removed.\<close>

definition is_space :: "char \<Rightarrow> bool" where
  "is_space c = (c \<in> set [CHR '' '', CHR 0x09, CHR 0x0A, CHR 0x0B, CHR 0x0C, CHR 0x0D,
                           CHR 0x1C, CHR 0x1D, CHR 0x1E, CHR 0x1F, CHR 0x85, CHR 0xA0])"

definition strip :: "string \<Rightarrow> string" where
  "strip s = rev (dropWhile is_space (rev (dropWhile is_space s)))"

text \<open>
  \<^verbatim>\<open>re.fullmatch(r'fatman-(.+) .+:(\d+)->.*', s)\<close>, giving group 2. After the literal prefix
  the rest \<open>r\<close> is cut at a space \<open>i\<close>, a colon \<open>j\<close> and the end \<open>k\<close> of the digits. The
  quantifiers are greedy, so the cuts are tried longest first, the earlier group before
  the later one, and the first cut that matches is taken. A dot matches any character but
  \<^verbatim>\<open>\n\<close>.
\<close>

definition dot_star :: "string \<Rightarrow> bool" where
  "dot_star s = (CHR 0x0A \<notin> set s)"

definition dot_plus :: "string \<Rightarrow> bool" where
  "dot_plus s = (s \<noteq> [] \<and> dot_star s)"

definition digits_plus :: "string \<Rightarrow> bool" where
  "digits_plus s = (s \<noteq> [] \<and> list_all is_digit s)"

definition slice :: "nat \<Rightarrow> nat \<Rightarrow> 'a list \<Rightarrow> 'a list" where
  "slice a b xs = take (b - a) (drop a xs)"

definition port_cut :: "string \<Rightarrow> nat \<Rightarrow> nat \<Rightarrow> nat \<Rightarrow> bool" where
  "port_cut r i j k =
     (dot_plus (slice 0 i r) \<and> slice i (Suc i) r = '' '' \<and>
      dot_plus (slice (Suc i) j r) \<and> slice j (Suc j) r = '':'' \<and>
      digits_plus (slice (Suc j) k r) \<and> slice k (k + 2) r = ''->'' \<and>
      dot_star (drop (k + 2) r))"

definition port_cuts :: "string \<Rightarrow> (nat \<times> nat \<times> nat) list" where
  "port_cuts r =
     concat (map (\<lambda>i. concat (map (\<lambda>j. map (\<lambda>k. (i, j, k)) (rev [j + 2..<length r]))
                                   (rev [i + 2..<length r])))
                 (rev [1..<length r]))"

definition port_group :: "string \<Rightarrow> string option" where
  "port_group s =
     (if take 7 s = ''fatman-'' then
        (let r = drop 7 s in
         case find (\<lambda>(i, j, k). port_cut r i j k) (port_cuts r) of
           Some (i, j, k) \<Rightarrow> Some (slice (Suc j) k r)
         | None \<Rightarrow> None)
      else None)"

text \<open>
  The first part of \<^verbatim>\<open>_get_next_fatman_port\<close>, on the output of the listing:
  \<^verbatim>\<open>
  occupied_ports = set()
  for line in output.splitlines():
      match = re.fullmatch(r'fatman-(.+) .+:(\d+)->.*', line.strip())
      if match:
          occupied_ports.add(int(match.group(2)))
  \<close>
\<close>

definition occupied_ports :: "string \<Rightarrow> int set" where
  "occupied_ports output =
     set (concat (map (\<lambda>line. case port_group (strip line) of
                                 Some g \<Rightarrow> [int (nat_of_digits g)]
                               | None \<Rightarrow> [])
                      (splitlines output)))"

section \<open>Environment variables\<close>

text \<open>
  A Python \<^verbatim>\<open>dict\<close> of strings, in insertion order: an association list. Assigning to a
  key (\<^verbatim>\<open>d[k] = v\<close>) is \<open>AList.update\<close>: the value is replaced in place when the key is
  there, the pair is appended otherwise.
\<close>

type_synonym env_vars = "(string \<times> string) list"

text \<open>
  Modelled from the spec: \<^verbatim>\<open>merge_env_vars\<close> is imported from \<^verbatim>\<open>racetrack_client.client.env\<close>
  and is not among the sources. The spec merges the second mapping into the first, a later
  mapping overwriting the keys of an earlier one: every pair of the overlay is assigned
  into a copy of the base.
\<close>

definition merge_env_vars :: "env_vars \<Rightarrow> env_vars \<Rightarrow> env_vars" where
  "merge_env_vars base overlay = fold (\<lambda>(k, v). AList.update k v) overlay base"

section \<open>Configuration and collaborators\<close>

text \<open>
  \<^verbatim>\<open>InfrastructureConfig\<close> (module \<^verbatim>\<open>plugin_config\<close>, not among the sources) is read for
  two attributes. The host name is optional; Python takes \<^verbatim>\<open>None\<close> and \<^verbatim>\<open>''\<close> for false.
\<close>

record infrastructure_config =
  hostname :: "string option"
  docker_host :: string

definition truthy :: "'a list option \<Rightarrow> bool" where
  "truthy x = (case x of None \<Rightarrow> False | Some v \<Rightarrow> v \<noteq> [])"

record deployer =
  infra_config :: infrastructure_config
  infrastructure_target :: string
  docker_config_dir :: string

record manifest =
  manifest_name :: string
  manifest_version :: string

record config =
  internal_pub_url :: string
  open_telemetry_enabled :: bool
  open_telemetry_endpoint :: string
  docker_registry :: string
  docker_registry_namespace :: string

text \<open>
  What the deployer imports from the platform, taken as given: the resource name of a
  workload, the image of a container slot, the name of the tracing header, the token of
  the family's auth subject (\<^verbatim>\<open>get_auth_subject_by_fatman_family(read_fatman_family_model(family.name)).token\<close>),
  the clock (\<^verbatim>\<open>datetime_to_timestamp(now())\<close>) and what the plugin hook
  \<^verbatim>\<open>fatman_runtime_env_vars\<close> returns: a list of optional mappings.
\<close>

record collaborators =
  fatman_resource_name :: "string \<Rightarrow> string \<Rightarrow> string"
  get_fatman_image :: "string \<Rightarrow> string \<Rightarrow> string \<Rightarrow> string \<Rightarrow> int \<Rightarrow> string"
  get_tracing_header_name :: string
  auth_subject_token :: "string \<Rightarrow> string"
  timestamp_now :: int
  plugin_hook_result :: "env_vars option list"

record fatman_dto =
  dto_name :: string
  dto_version :: string
  dto_status :: string
  create_time :: int
  update_time :: int
  dto_manifest :: manifest
  internal_name :: string
  image_tag :: string
  dto_infrastructure_target :: string

definition FATMAN_INTERNAL_PORT :: int where
  "FATMAN_INTERNAL_PORT = 7000"

section \<open>Commands and the remote daemon\<close>

text \<open>
  The five command lines the deployer builds, by their arguments; \<open>command_line\<close> below
  is the text of each. The pull policy and the network of a launch are fixed words of the
  source's text; they are fields here, which \<open>run_command\<close> below sets to those words.
\<close>

record run_args =
  run_docker_config :: string
  run_docker_host :: string
  run_name :: string
  run_ports_mapping :: "(int \<times> int) option"
  run_env :: env_vars
  run_pull :: string
  run_network :: string
  run_label_name :: string
  run_label_version :: string
  run_image :: string

datatype command =
    ContainerList string string
  | ContainerRemove string string
  | PortList string
  | NetworkCreate string
  | ContainerRun run_args

definition join :: "string \<Rightarrow> string list \<Rightarrow> string" where
  "join sep xs = (case xs of [] \<Rightarrow> [] | y # ys \<Rightarrow> y @ concat (map (\<lambda>z. sep @ z) ys))"

definition env_vars_cmd :: "env_vars \<Rightarrow> string" where
  "env_vars_cmd env =
     join '' '' (map (\<lambda>(env_name, env_val). ''--env '' @ env_name @ ''='' @ [CHR 0x22] @ env_val @ [CHR 0x22]) env)"

definition ports_mapping_text :: "(int \<times> int) option \<Rightarrow> string" where
  "ports_mapping_text pm =
     (case pm of Some (outer, inner) \<Rightarrow> ''-p '' @ str_int outer @ '':'' @ str_int inner | None \<Rightarrow> [])"

fun command_line :: "command \<Rightarrow> string" where
  "command_line (ContainerList dh container_name) =
     ''DOCKER_HOST='' @ dh @ '' docker ps -a --filter '' @ [CHR 0x22] @ ''name=^/'' @ container_name
       @ ''$'' @ [CHR 0x22] @ '' --format '' @ [CHR 0x22] @ ''{{.Names}}'' @ [CHR 0x22]"
| "command_line (ContainerRemove dh container_name) =
     ''DOCKER_HOST='' @ dh @ '' docker rm -f '' @ container_name"
| "command_line (PortList dh) =
     ''DOCKER_HOST='' @ dh @ '' docker ps --filter '' @ [CHR 0x22] @ ''name=^/fatman-'' @ [CHR 0x22]
       @ '' --format '' @ [CHR 0x22] @ ''{.Names} {.Ports}'' @ [CHR 0x22]"
| "command_line (NetworkCreate dh) =
     ''DOCKER_HOST='' @ dh @ '' docker network create racetrack_default''"
| "command_line (ContainerRun a) =
     '' DOCKER_CONFIG='' @ run_docker_config a
       @ '' DOCKER_HOST='' @ run_docker_host a
       @ '' docker run -d''
       @ '' --name '' @ run_name a
       @ '' '' @ ports_mapping_text (run_ports_mapping a)
       @ '' '' @ env_vars_cmd (run_env a)
       @ '' --pull '' @ run_pull a
       @ '' --network='' @ [CHR 0x22] @ run_network a @ [CHR 0x22]
       @ '' --label fatman-name='' @ run_label_name a
       @ '' --label fatman-version='' @ run_label_version a
       @ '' '' @ run_image a"

text \<open>
  The remote daemon is any function from a command and a host state to a result and the
  next host state: \<open>Inl rc\<close> is a non-zero exit (which \<^verbatim>\<open>shell\<close> and \<^verbatim>\<open>shell_output\<close> raise
  as \<^verbatim>\<open>CommandError\<close>), \<open>Inr out\<close> the captured output. The world also records, in order,
  every command issued and every invocation of the plugin hook.
\<close>

type_synonym 'h executor = "command \<Rightarrow> 'h \<Rightarrow> (int + string) \<times> 'h"

datatype event = Shell command | PluginHook

record 'h world =
  host :: 'h
  events :: "event list"

datatype error =
    AssertionError string
  | RuntimeError "string set"
  | CommandError command int
  | NotImplementedError string

type_synonym ('h, 'a) action = "'h world \<Rightarrow> (error + 'a) \<times> 'h world"

definition done_with :: "'a \<Rightarrow> ('h, 'a) action" where
  "done_with a w = (Inr a, w)"

definition raise :: "error \<Rightarrow> ('h, 'a) action" where
  "raise e w = (Inl e, w)"

definition then_do :: "('h, 'a) action \<Rightarrow> ('a \<Rightarrow> ('h, 'b) action) \<Rightarrow> ('h, 'b) action" where
  "then_do m f w = (case m w of (Inl e, w') \<Rightarrow> (Inl e, w') | (Inr a, w') \<Rightarrow> f a w')"

definition shell_output :: "'h executor \<Rightarrow> command \<Rightarrow> ('h, string) action" where
  "shell_output ex c w =
     (case ex c (host w) of
        (Inl rc, h') \<Rightarrow> (Inl (CommandError c rc), \<lparr>host = h', events = events w @ [Shell c]\<rparr>)
      | (Inr out, h') \<Rightarrow> (Inr out, \<lparr>host = h', events = events w @ [Shell c]\<rparr>))"

definition shell :: "'h executor \<Rightarrow> command \<Rightarrow> ('h, unit) action" where
  "shell ex c = then_do (shell_output ex c) (\<lambda>_. done_with ())"

definition invoke_plugin_hook :: "collaborators \<Rightarrow> ('h, env_vars option list) action" where
  "invoke_plugin_hook cl w = (Inr (plugin_hook_result cl), w\<lparr>events := events w @ [PluginHook]\<rparr>)"

section \<open>The deployer\<close>

text \<open>Python's \<^verbatim>\<open>range(n)\<close> and a \<^verbatim>\<open>for\<close> loop whose body may raise.\<close>

definition range_upto :: "int \<Rightarrow> int list" where
  "range_upto n = map int [0..<nat n]"

fun for_each :: "'a list \<Rightarrow> ('a \<Rightarrow> ('h, unit) action) \<Rightarrow> ('h, unit) action" where
  "for_each [] body = done_with ()"
| "for_each (x # xs) body = then_do (body x) (\<lambda>_. for_each xs body)"

text \<open>
  \<^verbatim>\<open>
  def _container_exists(self, container_name: str) -> bool:
      output = shell_output(f'DOCKER_HOST=... docker ps -a --filter "name=^/{container_name}$" --format "{{{{.Names}}}}"')
      return container_name in output.splitlines()

  def _delete_container_if_exists(self, container_name: str):
      if self._container_exists(container_name):
          shell(f'DOCKER_HOST={self.infra_config.docker_host} docker rm -f {container_name}')
  \<close>
\<close>

definition container_exists :: "deployer \<Rightarrow> 'h executor \<Rightarrow> string \<Rightarrow> ('h, bool) action" where
  "container_exists self ex container_name =
     then_do (shell_output ex (ContainerList (docker_host (infra_config self)) container_name))
       (\<lambda>output. done_with (container_name \<in> set (splitlines output)))"

definition delete_container_if_exists :: "deployer \<Rightarrow> 'h executor \<Rightarrow> string \<Rightarrow> ('h, unit) action" where
  "delete_container_if_exists self ex container_name =
     then_do (container_exists self ex container_name)
       (\<lambda>present. if present
                   then shell ex (ContainerRemove (docker_host (infra_config self)) container_name)
                   else done_with ())"

text \<open>
  \<^verbatim>\<open>
  def delete_fatman(self, fatman_name: str, fatman_version: str):
      entrypoint_resource_name = fatman_resource_name(fatman_name, fatman_version)
      for container_index in range(2):
          container_name = self.get_container_name(entrypoint_resource_name, container_index)
          self._delete_container_if_exists(container_name)

  def fatman_exists(self, fatman_name: str, fatman_version: str) -> bool:
      resource_name = fatman_resource_name(fatman_name, fatman_version)
      container_name = self.get_container_name(resource_name, 0)
      return self._container_exists(container_name)
  \<close>
\<close>

definition delete_fatman ::
  "deployer \<Rightarrow> collaborators \<Rightarrow> 'h executor \<Rightarrow> string \<Rightarrow> string \<Rightarrow> ('h, unit) action" where
  "delete_fatman self cl ex fatman_name fatman_version =
     (let entrypoint_resource_name = fatman_resource_name cl fatman_name fatman_version in
      for_each (range_upto 2)
        (\<lambda>container_index.
           delete_container_if_exists self ex
             (get_container_name entrypoint_resource_name container_index)))"

definition fatman_exists ::
  "deployer \<Rightarrow> collaborators \<Rightarrow> 'h executor \<Rightarrow> string \<Rightarrow> string \<Rightarrow> ('h, bool) action" where
  "fatman_exists self cl ex fatman_name fatman_version =
     (let resource_name = fatman_resource_name cl fatman_name fatman_version;
          container_name = get_container_name resource_name 0
      in container_exists self ex container_name)"

text \<open>
  \<^verbatim>\<open>
  def _get_next_fatman_port(self) -> int:
      output = shell_output(f'DOCKER_HOST=... docker ps --filter "name=^/fatman-" --format "{{.Names}} {{.Ports}}"')
      ...
  \<close>
  The parsing of the output is \<open>occupied_ports\<close>, the scan \<open>next_free_port\<close>.
\<close>

definition get_next_fatman_port :: "deployer \<Rightarrow> 'h executor \<Rightarrow> ('h, int) action" where
  "get_next_fatman_port self ex =
     then_do (shell_output ex (PortList (docker_host (infra_config self))))
       (\<lambda>output. done_with (next_free_port (occupied_ports output)))"

definition save_fatman_secrets :: "deployer \<Rightarrow> string \<Rightarrow> string \<Rightarrow> 's \<Rightarrow> ('h, unit) action" where
  "save_fatman_secrets self fatman_name fatman_version fatman_secrets =
     raise (NotImplementedError ''managing secrets is not supported on local docker'')"

definition get_fatman_secrets :: "deployer \<Rightarrow> string \<Rightarrow> string \<Rightarrow> ('h, 's) action" where
  "get_fatman_secrets self fatman_name fatman_version =
     raise (NotImplementedError ''managing secrets is not supported on local docker'')"

subsection \<open>The parts of \<^verbatim>\<open>deploy_fatman\<close>\<close>

text \<open>
  The reserved variables:
  \<^verbatim>\<open>
  common_env_vars = {
      'PUB_URL': config.internal_pub_url,
      'FATMAN_NAME': manifest.name,
      'AUTH_TOKEN': auth_subject.token,
      'FATMAN_DEPLOYMENT_TIMESTAMP': deployment_timestamp,
      'REQUEST_TRACING_HEADER': get_tracing_header_name(),
  }
  if config.open_telemetry_enabled:
      common_env_vars['OPENTELEMETRY_ENDPOINT'] = config.open_telemetry_endpoint
  if containers_num > 1:
      common_env_vars['FATMAN_USER_MODULE_HOSTNAME'] = self.get_container_name(entrypoint_resource_name, 1)
  \<close>
  The timestamp is an integer in the dictionary; it is kept here as the text the command
  line shows for it.
\<close>

definition common_env_vars ::
  "collaborators \<Rightarrow> config \<Rightarrow> manifest \<Rightarrow> string \<Rightarrow> string \<Rightarrow> int \<Rightarrow> env_vars" where
  "common_env_vars cl config manifest family_name entrypoint_resource_name containers_num =
     (let vars0 = [(''PUB_URL'', internal_pub_url config),
                   (''FATMAN_NAME'', manifest_name manifest),
                   (''AUTH_TOKEN'', auth_subject_token cl family_name),
                   (''FATMAN_DEPLOYMENT_TIMESTAMP'', str_int (timestamp_now cl)),
                   (''REQUEST_TRACING_HEADER'', get_tracing_header_name cl)];
          vars1 = (if open_telemetry_enabled config
                   then AList.update ''OPENTELEMETRY_ENDPOINT'' (open_telemetry_endpoint config) vars0
                   else vars0)
      in if containers_num > 1
         then AList.update ''FATMAN_USER_MODULE_HOSTNAME''
                (get_container_name entrypoint_resource_name 1) vars1
         else vars1)"

text \<open>
  The composition of the environment:
  \<^verbatim>\<open>
  conflicts = common_env_vars.keys() & runtime_env_vars.keys()
  if conflicts:
      raise RuntimeError(f'found illegal runtime env vars, which conflict with reserved names: {conflicts}')
  runtime_env_vars = merge_env_vars(runtime_env_vars, common_env_vars)
  plugin_vars_list = plugin_engine.invoke_plugin_hook(PluginCore.fatman_runtime_env_vars)
  for plugin_vars in plugin_vars_list:
      if plugin_vars:
          runtime_env_vars = merge_env_vars(runtime_env_vars, plugin_vars)
  \<close>
  The error carries the set of conflicting keys that its message prints.
\<close>

definition conflicts :: "env_vars \<Rightarrow> env_vars \<Rightarrow> string set" where
  "conflicts common runtime_env_vars = set (map fst common) \<inter> set (map fst runtime_env_vars)"

definition merge_plugin_vars :: "env_vars \<Rightarrow> env_vars option list \<Rightarrow> env_vars" where
  "merge_plugin_vars runtime_env_vars plugin_vars_list =
     foldl (\<lambda>env plugin_vars. if truthy plugin_vars
                               then merge_env_vars env (case plugin_vars of Some m \<Rightarrow> m | None \<Rightarrow> [])
                               else env)
           runtime_env_vars plugin_vars_list"

definition compose_env_vars :: "collaborators \<Rightarrow> env_vars \<Rightarrow> env_vars \<Rightarrow> ('h, env_vars) action" where
  "compose_env_vars cl runtime_env_vars common =
     (if conflicts common runtime_env_vars \<noteq> {}
      then raise (RuntimeError (conflicts common runtime_env_vars))
      else then_do (invoke_plugin_hook cl)
             (\<lambda>plugin_vars_list.
                done_with (merge_plugin_vars (merge_env_vars runtime_env_vars common) plugin_vars_list)))"

text \<open>
  The shared network:
  \<^verbatim>\<open>
  try:
      shell(f'DOCKER_HOST={self.infra_config.docker_host} docker network create racetrack_default')
  except CommandError as e:
      if e.returncode != 1:
          raise e
  \<close>
\<close>

definition create_network :: "deployer \<Rightarrow> 'h executor \<Rightarrow> ('h, unit) action" where
  "create_network self ex w =
     (case shell ex (NetworkCreate (docker_host (infra_config self))) w of
        (Inl e, w') \<Rightarrow>
          (case e of
             CommandError c returncode \<Rightarrow> if returncode \<noteq> 1 then (Inl e, w') else (Inr (), w')
           | _ \<Rightarrow> (Inl e, w'))
      | (Inr u, w') \<Rightarrow> (Inr u, w'))"

text \<open>
  The body of the launch loop, for one \<^verbatim>\<open>container_index\<close>:
  \<^verbatim>\<open>
  container_name = self.get_container_name(entrypoint_resource_name, container_index)
  image_name = get_fatman_image(config.docker_registry, config.docker_registry_namespace, manifest.name, tag, container_index)
  ports_mapping = f'-p {fatman_port}:{FATMAN_INTERNAL_PORT}' if container_index == 0 else ''
  shell(f' DOCKER_CONFIG=...' ... f' docker run -d' ... f' {image_name}')
  \<close>
\<close>

definition run_command ::
  "deployer \<Rightarrow> collaborators \<Rightarrow> manifest \<Rightarrow> config \<Rightarrow> string \<Rightarrow> string \<Rightarrow> int \<Rightarrow> env_vars \<Rightarrow> int \<Rightarrow> command" where
  "run_command self cl manifest config tag entrypoint_resource_name fatman_port env container_index =
     ContainerRun \<lparr>
       run_docker_config = docker_config_dir self,
       run_docker_host = docker_host (infra_config self),
       run_name = get_container_name entrypoint_resource_name container_index,
       run_ports_mapping = (if container_index = 0 then Some (fatman_port, FATMAN_INTERNAL_PORT) else None),
       run_env = env,
       run_pull = ''always'',
       run_network = ''racetrack_default'',
       run_label_name = manifest_name manifest,
       run_label_version = manifest_version manifest,
       run_image = get_fatman_image cl (docker_registry config) (docker_registry_namespace config)
                     (manifest_name manifest) tag container_index \<rparr>"

subsection \<open>\<^verbatim>\<open>deploy_fatman\<close>\<close>

text \<open>
  The first lines of \<^verbatim>\<open>deploy_fatman\<close>, which talk to the daemon before anything is checked:
  \<^verbatim>\<open>
  if self.fatman_exists(manifest.name, manifest.version):
      self.delete_fatman(manifest.name, manifest.version)

  fatman_port = self._get_next_fatman_port()
  \<close>
\<close>

definition delete_previous :: "deployer \<Rightarrow> collaborators \<Rightarrow> 'h executor \<Rightarrow> manifest \<Rightarrow> ('h, unit) action" where
  "delete_previous self cl ex manifest =
     then_do (fatman_exists self cl ex (manifest_name manifest) (manifest_version manifest))
       (\<lambda>present. if present
                   then delete_fatman self cl ex (manifest_name manifest) (manifest_version manifest)
                   else done_with ())"

definition prepare_deploy :: "deployer \<Rightarrow> collaborators \<Rightarrow> 'h executor \<Rightarrow> manifest \<Rightarrow> ('h, int) action" where
  "prepare_deploy self cl ex manifest =
     then_do (delete_previous self cl ex manifest) (\<lambda>_. get_next_fatman_port self ex)"

text \<open>The launch loop: \<^verbatim>\<open>for container_index in range(containers_num): ... shell(...)\<close>.\<close>

definition launch_containers ::
  "deployer \<Rightarrow> collaborators \<Rightarrow> 'h executor \<Rightarrow> manifest \<Rightarrow> config \<Rightarrow> string \<Rightarrow> string \<Rightarrow> int
     \<Rightarrow> env_vars \<Rightarrow> int \<Rightarrow> ('h, unit) action" where
  "launch_containers self cl ex manifest config tag entrypoint_resource_name fatman_port env containers_num =
     for_each (range_upto containers_num)
       (\<lambda>container_index.
          shell ex (run_command self cl manifest config tag entrypoint_resource_name
                      fatman_port env container_index))"

text \<open>\<^verbatim>\<open>internal_name = f'{self.infra_config.hostname}:{fatman_port}'\<close>, past the assertion.\<close>

definition host_and_port :: "string option \<Rightarrow> int \<Rightarrow> string" where
  "host_and_port h fatman_port =
     (case h of Some name \<Rightarrow> name | None \<Rightarrow> ''None'') @ '':'' @ str_int fatman_port"

text \<open>
  The descriptor returned at the end:
  \<^verbatim>\<open>
  return FatmanDto(name=manifest.name, version=manifest.version, status=FatmanStatus.RUNNING.value,
      create_time=deployment_timestamp, update_time=deployment_timestamp, manifest=manifest,
      internal_name=internal_name, image_tag=tag, infrastructure_target=self.infrastructure_target)
  \<close>
\<close>

definition deployed_dto :: "deployer \<Rightarrow> manifest \<Rightarrow> string \<Rightarrow> int \<Rightarrow> string \<Rightarrow> fatman_dto" where
  "deployed_dto self manifest tag deployment_timestamp internal_name_text = \<lparr>
     dto_name = manifest_name manifest,
     dto_version = manifest_version manifest,
     dto_status = ''running'',
     create_time = deployment_timestamp,
     update_time = deployment_timestamp,
     dto_manifest = manifest,
     internal_name = internal_name_text,
     image_tag = tag,
     dto_infrastructure_target = infrastructure_target self \<rparr>"

text \<open>
  The whole method, in the order of the source: the existence check, the deletion of a
  previous instance and the port; the names, the clock and the token; the assertion on
  the host name; the reserved variables and the composition; the network; the launch
  loop; the descriptor.
\<close>

definition deploy_fatman ::
  "deployer \<Rightarrow> collaborators \<Rightarrow> 'h executor \<Rightarrow> manifest \<Rightarrow> config \<Rightarrow> string \<Rightarrow> env_vars
     \<Rightarrow> string \<Rightarrow> int \<Rightarrow> ('h, fatman_dto) action" where
  "deploy_fatman self cl ex manifest config tag runtime_env_vars family_name containers_num =
     then_do (prepare_deploy self cl ex manifest)
       (\<lambda>fatman_port.
     let entrypoint_resource_name =
           fatman_resource_name cl (manifest_name manifest) (manifest_version manifest);
         deployment_timestamp = timestamp_now cl
     in
     if \<not> truthy (hostname (infra_config self))
     then raise (AssertionError ''hostname of a docker daemon must be set'')
     else
     let internal_name = host_and_port (hostname (infra_config self)) fatman_port;
         common = common_env_vars cl config manifest family_name entrypoint_resource_name containers_num
     in
     then_do (compose_env_vars cl runtime_env_vars common)
       (\<lambda>env.
     then_do (create_network self ex)
       (\<lambda>_.
     then_do (launch_containers self cl ex manifest config tag entrypoint_resource_name
                fatman_port env containers_num)
       (\<lambda>_.
     done_with (deployed_dto self manifest tag deployment_timestamp internal_name)))))"

section \<open>What a run leaves in the record of events\<close>

text \<open>
  The events a run added to the record, and three kinds of event: a container launch, the
  creation of the network, and the commands that only list or remove containers.
\<close>

definition issued :: "'h world \<Rightarrow> 'h world \<Rightarrow> event list" where
  "issued w w' = drop (length (events w)) (events w')"

fun is_launch :: "event \<Rightarrow> bool" where
  "is_launch (Shell (ContainerRun a)) = True"
| "is_launch ev = False"

fun is_network_create :: "event \<Rightarrow> bool" where
  "is_network_create (Shell (NetworkCreate dh)) = True"
| "is_network_create ev = False"

fun listing_or_removal :: "event \<Rightarrow> bool" where
  "listing_or_removal (Shell (ContainerList dh n)) = True"
| "listing_or_removal (Shell (ContainerRemove dh n)) = True"
| "listing_or_removal (Shell (PortList dh)) = True"
| "listing_or_removal ev = False"

text \<open>
  An action that adds only events of a given kind to the record, whatever it returns, and
  that fails, when it fails, with a \<^verbatim>\<open>CommandError\<close>.
\<close>

fun is_command_error :: "error \<Rightarrow> bool" where
  "is_command_error (CommandError c returncode) = True"
| "is_command_error e = False"

definition only_issues :: "(event \<Rightarrow> bool) \<Rightarrow> ('h, 'a) action \<Rightarrow> bool" where
  "only_issues P m =
     (\<forall>w r w'. m w = (r, w') \<longrightarrow>
        (\<exists>evs. events w' = events w @ evs \<and> list_all P evs) \<and>
        (\<forall>e. r = Inl e \<longrightarrow> is_command_error e))"

text \<open>Whether the listing by name reports the container, on a given host state.\<close>

definition reported_present :: "'h executor \<Rightarrow> string \<Rightarrow> string \<Rightarrow> 'h \<Rightarrow> bool" where
  "reported_present ex dh container_name h =
     (case fst (ex (ContainerList dh container_name) h) of
        Inl rc \<Rightarrow> False
      | Inr output \<Rightarrow> container_name \<in> set (splitlines output))"

section \<open>A small daemon to run the deployer on\<close>

text \<open>
  A host that keeps the names of its containers and networks and a fixed text for the
  port listing. Listing by name prints the name when a container has it; removing drops
  it; creating the network exits with 1 when it is there; running a container whose name
  is taken exits with 125.
\<close>

record daemon =
  containers :: "string list"
  networks :: "string list"
  port_listing :: string

fun sample_daemon :: "daemon executor" where
  "sample_daemon (ContainerList dh n) h =
     (Inr (if n \<in> set (containers h) then n @ [CHR 0x0A] else []), h)"
| "sample_daemon (ContainerRemove dh n) h =
     (if n \<in> set (containers h)
      then (Inr (n @ [CHR 0x0A]), h\<lparr>containers := removeAll n (containers h)\<rparr>)
      else (Inl 1, h))"
| "sample_daemon (PortList dh) h = (Inr (port_listing h), h)"
| "sample_daemon (NetworkCreate dh) h =
     (if ''racetrack_default'' \<in> set (networks h)
      then (Inl 1, h)
      else (Inr [], h\<lparr>networks := networks h @ [''racetrack_default'']\<rparr>))"
| "sample_daemon (ContainerRun a) h =
     (if run_name a \<in> set (containers h)
      then (Inl 125, h)
      else (Inr (run_name a @ [CHR 0x0A]), h\<lparr>containers := containers h @ [run_name a]\<rparr>))"

text \<open>Fixed inputs for the concrete runs below.\<close>

definition sample_deployer :: deployer where
  "sample_deployer = \<lparr>
     infra_config = \<lparr>hostname = Some ''node1'', docker_host = ''ssh://node1''\<rparr>,
     infrastructure_target = ''remote'',
     docker_config_dir = ''/home/racetrack/.docker'' \<rparr>"

definition sample_collaborators :: collaborators where
  "sample_collaborators = \<lparr>
     fatman_resource_name = (\<lambda>n v. ''fatman-'' @ n @ ''-v-'' @ v),
     get_fatman_image = (\<lambda>registry namespace n tag i. registry @ ''/'' @ namespace @ ''/'' @ n @ '':'' @ tag),
     get_tracing_header_name = ''traceparent'',
     auth_subject_token = (\<lambda>family. ''token''),
     timestamp_now = 1700,
     plugin_hook_result = [] \<rparr>"

definition sample_manifest :: manifest where
  "sample_manifest = \<lparr>manifest_name = ''adder'', manifest_version = ''1''\<rparr>"

definition sample_config :: config where
  "sample_config = \<lparr>
     internal_pub_url = ''http://pub'',
     open_telemetry_enabled = False,
     open_telemetry_endpoint = [],
     docker_registry = ''registry'',
     docker_registry_namespace = ''ns'' \<rparr>"

definition empty_host :: "daemon world" where
  "empty_host = \<lparr>host = \<lparr>containers = [], networks = [], port_listing = []\<rparr>, events = []\<rparr>"

definition busy_host :: "daemon world" where
  "busy_host = \<lparr>host = \<lparr>containers = [''fatman-a'', ''fatman-b'', ''fatman-c''], networks = [],
      port_listing = ''fatman-a b:7000->'' @ [CHR 0x0A] @ ''fatman-b b:7010->'' @ [CHR 0x0A]
                       @ ''fatman-c b:7020->'' @ [CHR 0x0A]\<rparr>, events = []\<rparr>"

section \<open>Decimal rendering\<close>

lemma digit_val_digit_char: "d < 10 \<Longrightarrow> digit_val (digit_char d) = d"
proof -
  assume "d < 10"
  then have "d = 0 \<or> d = 1 \<or> d = 2 \<or> d = 3 \<or> d = 4 \<or> d = 5 \<or> d = 6 \<or> d = 7 \<or> d = 8 \<or> d = 9"
    by arith
  then show ?thesis
    by (auto simp: digit_val_def digit_char_def)
qed

lemma digit_char_not_minus: "d < 10 \<Longrightarrow> digit_char d \<noteq> CHR ''-''"
proof -
  assume "d < 10"
  then have "d = 0 \<or> d = 1 \<or> d = 2 \<or> d = 3 \<or> d = 4 \<or> d = 5 \<or> d = 6 \<or> d = 7 \<or> d = 8 \<or> d = 9"
    by arith
  then show ?thesis
    by (auto simp: digit_char_def)
qed

lemma nat_of_digits_snoc: "nat_of_digits (ds @ [c]) = 10 * nat_of_digits ds + digit_val c"
  by (simp add: nat_of_digits_def)

lemma nat_of_digits_str_nat: "nat_of_digits (str_nat n) = n"
proof (induction n rule: str_nat.induct)
  case (1 n)
  show ?case
  proof (cases "n < 10")
    case True
    then show ?thesis
      by (simp add: str_nat.simps [of n] nat_of_digits_def digit_val_digit_char)
  next
    case False
    with 1 have "nat_of_digits (str_nat (n div 10)) = n div 10" by simp
    with False show ?thesis
      by (simp add: str_nat.simps [of n] nat_of_digits_snoc digit_val_digit_char)
  qed
qed

lemma str_nat_starts_with_digit: "\<exists>d ds. d < 10 \<and> str_nat n = digit_char d # ds"
proof (induction n rule: str_nat.induct)
  case (1 n)
  show ?case
  proof (cases "n < 10")
    case True
    then show ?thesis by (auto simp: str_nat.simps [of n])
  next
    case False
    with 1 obtain d ds where "d < 10" "str_nat (n div 10) = digit_char d # ds" by blast
    with False have "str_nat n = digit_char d # (ds @ [digit_char (n mod 10)])"
      by (simp add: str_nat.simps [of n])
    with \<open>d < 10\<close> show ?thesis by blast
  qed
qed

lemma int_of_str_str_int: "int_of_str (str_int i) = i"
proof (cases "i < 0")
  case True
  then show ?thesis by (simp add: int_of_str_def str_int_def nat_of_digits_str_nat)
next
  case False
  obtain d ds where d: "d < 10" "str_nat (nat i) = digit_char d # ds"
    using str_nat_starts_with_digit by blast
  have "nat_of_digits (digit_char d # ds) = nat i"
    using nat_of_digits_str_nat [of "nat i"] d by simp
  with False d show ?thesis
    by (simp add: int_of_str_def str_int_def digit_char_not_minus)
qed

lemma str_int_1: "str_int 1 = ''1''"
  by (simp add: str_int_def str_nat.simps [of "Suc 0"] digit_char_def)

lemma str_int_2: "str_int 2 = ''2''"
  by (simp add: str_int_def str_nat.simps [of 2] digit_char_def)

section \<open>Container names (C9)\<close>

text \<open>
  C9. The name of the container at index 0 is the base itself; at any other index it is
  the base, a hyphen and the decimal rendering of the index (reading the rendering back
  gives the index). The function has no failing branch. In particular the name at index
  2 is the base followed by \<^verbatim>\<open>-2\<close>.
\<close>

theorem container_name_spec:
  "get_container_name base 0 = base
   \<and> (index \<noteq> 0 \<longrightarrow> get_container_name base index = base @ ''-'' @ str_int index)
   \<and> int_of_str (str_int index) = index
   \<and> get_container_name base 2 = base @ ''-2''"
  by (simp add: get_container_name_def int_of_str_str_int str_int_2)

theorem container_name_spec_witness:
  "(5::int) \<noteq> 0 \<and> get_container_name ''fatman-adder-v-1'' 5 = ''fatman-adder-v-1-5''
   \<and> get_container_name ''fatman-adder-v-1'' 0 = ''fatman-adder-v-1''
   \<and> get_container_name ''fatman-adder-v-1'' 2 = ''fatman-adder-v-1-2''"
  using container_name_spec [of "''fatman-adder-v-1''" 5]
  by (simp add: str_int_def str_nat.simps [of 5] digit_char_def)

section \<open>The port scan (C5)\<close>

lemma find_strictly_sorted:
  "sorted_wrt (<) xs \<Longrightarrow> find P xs = Some x \<Longrightarrow>
     x \<in> set xs \<and> P x \<and> (\<forall>y \<in> set xs. y < x \<longrightarrow> \<not> P y)"
  for xs :: "int list"
proof (induction xs)
  case Nil
  then show ?case by simp
next
  case (Cons a xs)
  show ?case
  proof (cases "P a")
    case True
    with Cons.prems show ?thesis by auto
  next
    case False
    with Cons show ?thesis by fastforce
  qed
qed

lemma py_range_sorted: "0 < step \<Longrightarrow> sorted_wrt (<) (py_range start stop step)"
  by (simp add: py_range_def sorted_wrt_map sorted_wrt_iff_nth_less)

lemma port_candidates: "py_range 7000 8000 10 = map (\<lambda>k. 7000 + 10 * int k) [0..<100]"
  by (simp add: py_range_def)

lemma next_free_port_found:
  assumes "c \<in> set (py_range 7000 8000 10)" "c \<notin> occ"
  shows "next_free_port occ \<in> set (py_range 7000 8000 10) \<and> next_free_port occ \<notin> occ \<and>
         (\<forall>c \<in> set (py_range 7000 8000 10). c < next_free_port occ \<longrightarrow> c \<in> occ)"
proof -
  from assms obtain p where p: "find (\<lambda>port. port \<notin> occ) (py_range 7000 8000 10) = Some p"
    by (cases "find (\<lambda>port. port \<notin> occ) (py_range 7000 8000 10)") (auto simp: find_None_iff)
  have "sorted_wrt (<) (py_range 7000 8000 10)" by (rule py_range_sorted) simp
  from find_strictly_sorted [OF this p] p show ?thesis
    by (auto simp: next_free_port_def)
qed

lemma next_free_port_fallback:
  "set (py_range 7000 8000 10) \<subseteq> occ \<Longrightarrow> next_free_port occ = 8000"
proof -
  assume "set (py_range 7000 8000 10) \<subseteq> occ"
  then have "find (\<lambda>port. port \<notin> occ) (py_range 7000 8000 10) = None"
    by (auto simp: find_None_iff)
  then show ?thesis by (simp add: next_free_port_def)
qed

lemma next_free_port_example: "next_free_port {7000, 7010, 7020} = 7030"
  by (simp add: next_free_port_def py_range_def upt_conv_Cons)

lemma get_next_fatman_port_result:
  "ex (PortList (docker_host (infra_config self))) (host w) = (Inr output, h') \<Longrightarrow>
     fst (get_next_fatman_port self ex w) = Inr (next_free_port (occupied_ports output))"
  by (simp add: get_next_fatman_port_def then_do_def shell_output_def done_with_def)

text \<open>
  C5. The candidates are 7000, 7010, \<dots>, 7990 in ascending order. For every set of
  occupied ports the scan returns the smallest candidate that is not occupied, when
  there is one, and the fallback 8000 when every candidate is occupied; it never fails.
  With 7000, 7010 and 7020 occupied it returns 7030. The port that
  \<^verbatim>\<open>_get_next_fatman_port\<close> returns is the scan's result on the ports read from the
  listing.
\<close>

theorem next_free_port_spec:
  "py_range 7000 8000 10 = map (\<lambda>k. 7000 + 10 * int k) [0..<100]
   \<and> ((\<exists>c \<in> set (py_range 7000 8000 10). c \<notin> occ) \<longrightarrow>
        next_free_port occ \<in> set (py_range 7000 8000 10) \<and> next_free_port occ \<notin> occ \<and>
        (\<forall>c \<in> set (py_range 7000 8000 10). c < next_free_port occ \<longrightarrow> c \<in> occ))
   \<and> (set (py_range 7000 8000 10) \<subseteq> occ \<longrightarrow> next_free_port occ = 8000)
   \<and> next_free_port {7000, 7010, 7020} = 7030
   \<and> (ex (PortList (docker_host (infra_config self))) (host w) = (Inr output, h') \<longrightarrow>
        fst (get_next_fatman_port self ex w) = Inr (next_free_port (occupied_ports output)))"
proof (intro conjI impI)
  show "py_range 7000 8000 10 = map (\<lambda>k. 7000 + 10 * int k) [0..<100]"
    by (rule port_candidates)
next
  assume "\<exists>c \<in> set (py_range 7000 8000 10). c \<notin> occ"
  then obtain c where c: "c \<in> set (py_range 7000 8000 10)" "c \<notin> occ" by blast
  note found = next_free_port_found [OF c]
  from found show "next_free_port occ \<in> set (py_range 7000 8000 10)" by (rule conjunct1)
  from found show "next_free_port occ \<notin> occ" by (elim conjE)
  from found show "\<forall>c \<in> set (py_range 7000 8000 10). c < next_free_port occ \<longrightarrow> c \<in> occ"
    by (elim conjE)
next
  assume "set (py_range 7000 8000 10) \<subseteq> occ"
  then show "next_free_port occ = 8000" by (rule next_free_port_fallback)
next
  show "next_free_port {7000, 7010, 7020} = 7030" by (rule next_free_port_example)
next
  assume "ex (PortList (docker_host (infra_config self))) (host w) = (Inr output, h')"
  then show "fst (get_next_fatman_port self ex w) = Inr (next_free_port (occupied_ports output))"
    by (rule get_next_fatman_port_result)
qed

lemma busy_host_occupied: "occupied_ports (port_listing (host busy_host)) = {7000, 7010, 7020}"
  by code_simp

theorem next_free_port_spec_witness:
  "7030 \<in> set (py_range 7000 8000 10) \<and> (7030::int) \<notin> {7000, 7010, 7020}
   \<and> next_free_port {7000, 7010, 7020} = 7030
   \<and> set (py_range 7000 8000 10) \<subseteq> {7000..7990}
   \<and> next_free_port {7000..7990} = 8000
   \<and> sample_daemon (PortList ''ssh://node1'') (host busy_host) = (Inr (port_listing (host busy_host)), host busy_host)
   \<and> fst (get_next_fatman_port sample_deployer sample_daemon busy_host) = Inr 7030"
proof -
  note T = next_free_port_spec [of "{7000..7990}" sample_daemon sample_deployer busy_host
                            "port_listing (host busy_host)" "host busy_host"]
  have a: "7030 \<in> set (py_range 7000 8000 10)" by (simp add: py_range_def)
  have a': "(7030::int) \<notin> {7000, 7010, 7020}" by simp
  have b: "set (py_range 7000 8000 10) \<subseteq> {7000..7990}" by (auto simp: py_range_def)
  have c: "sample_daemon (PortList (docker_host (infra_config sample_deployer))) (host busy_host)
             = (Inr (port_listing (host busy_host)), host busy_host)"
    by simp
  have d: "docker_host (infra_config sample_deployer) = ''ssh://node1''"
    by (simp add: sample_deployer_def)
  have e: "next_free_port {7000..7990} = 8000" using T b by blast
  have f: "fst (get_next_fatman_port sample_deployer sample_daemon busy_host)
             = Inr (next_free_port (occupied_ports (port_listing (host busy_host))))"
    using T c by blast
  have g: "next_free_port {7000, 7010, 7020} = 7030" using T by blast
  from f have f': "fst (get_next_fatman_port sample_deployer sample_daemon busy_host) = Inr 7030"
    by (simp only: busy_host_occupied g)
  from c have c': "sample_daemon (PortList ''ssh://node1'') (host busy_host)
             = (Inr (port_listing (host busy_host)), host busy_host)"
    by (simp only: d)
  from a a' g b e c' f' show ?thesis by blast
qed

section \<open>Sequencing and the record of events\<close>

lemma then_do_cases:
  "then_do m f w = (r, w') \<Longrightarrow>
     (\<exists>e. m w = (Inl e, w') \<and> r = Inl e) \<or> (\<exists>a w1. m w = (Inr a, w1) \<and> f a w1 = (r, w'))"
  by (auto simp: then_do_def split: prod.splits sum.splits)

lemma then_do_Inl: "m w = (Inl e, w1) \<Longrightarrow> then_do m f w = (Inl e, w1)"
  by (simp add: then_do_def)

lemma then_do_Inr: "m w = (Inr a, w1) \<Longrightarrow> then_do m f w = f a w1"
  by (simp add: then_do_def)

lemma issued_append: "events w' = events w @ evs \<Longrightarrow> issued w w' = evs"
  by (simp add: issued_def)

lemma only_issuesE:
  assumes "only_issues P m" "m w = (r, w')"
  obtains evs where "events w' = events w @ evs" "list_all P evs"
  using assms unfolding only_issues_def by blast

lemma only_issuesI:
  assumes "\<And>w r w'. m w = (r, w') \<Longrightarrow> \<exists>evs. events w' = events w @ evs \<and> list_all P evs"
    and "\<And>w e w'. m w = (Inl e, w') \<Longrightarrow> is_command_error e"
  shows "only_issues P m"
  unfolding only_issues_def using assms by blast

lemma only_issuesD:
  assumes "only_issues P m" "m w = (r, w')"
  shows "events w' = events w @ issued w w' \<and> list_all P (issued w w')"
proof -
  from assms obtain evs where evs: "events w' = events w @ evs" "list_all P evs"
    by (rule only_issuesE)
  from evs(1) have "issued w w' = evs" by (rule issued_append)
  with evs show ?thesis by simp
qed

lemma only_issues_error:
  "only_issues P m \<Longrightarrow> m w = (Inl e, w') \<Longrightarrow> is_command_error e"
  unfolding only_issues_def by blast

lemma only_issues_done: "only_issues P (done_with a)"
  by (simp add: only_issues_def done_with_def)

lemma shell_output_result:
  "shell_output ex c w = (r, w') \<Longrightarrow>
     events w' = events w @ [Shell c] \<and> host w' = snd (ex c (host w)) \<and>
     r = (case fst (ex c (host w)) of Inl rc \<Rightarrow> Inl (CommandError c rc) | Inr out \<Rightarrow> Inr out)"
  by (auto simp: shell_output_def split: prod.splits sum.splits)

lemma only_issues_shell_output: "P (Shell c) \<Longrightarrow> only_issues P (shell_output ex c)"
  unfolding only_issues_def
  by (auto simp: shell_output_def split: prod.splits sum.splits)

lemma only_issues_then_do:
  assumes "only_issues P m" "\<And>a. only_issues P (f a)"
  shows "only_issues P (then_do m f)"
proof (rule only_issuesI)
  fix w r w'
  assume "then_do m f w = (r, w')"
  from then_do_cases [OF this]
  show "\<exists>evs. events w' = events w @ evs \<and> list_all P evs"
  proof
    assume "\<exists>e. m w = (Inl e, w') \<and> r = Inl e"
    then obtain e where "m w = (Inl e, w')" by blast
    with assms(1) show ?thesis by (blast elim: only_issuesE)
  next
    assume "\<exists>a w1. m w = (Inr a, w1) \<and> f a w1 = (r, w')"
    then obtain a w1 where m: "m w = (Inr a, w1)" and f: "f a w1 = (r, w')" by blast
    from assms(1) m obtain e1 where e1: "events w1 = events w @ e1" "list_all P e1"
      by (rule only_issuesE)
    from assms(2) [of a] f obtain e2 where e2: "events w' = events w1 @ e2" "list_all P e2"
      by (rule only_issuesE)
    from e1 e2 have "events w' = events w @ (e1 @ e2) \<and> list_all P (e1 @ e2)" by simp
    then show ?thesis by blast
  qed
next
  fix w e w'
  assume "then_do m f w = (Inl e, w')"
  from then_do_cases [OF this]
  show "is_command_error e"
  proof
    assume "\<exists>e'. m w = (Inl e', w') \<and> Inl e = Inl e'"
    then have "m w = (Inl e, w')" by simp
    with assms(1) show ?thesis by (rule only_issues_error)
  next
    assume "\<exists>a w1. m w = (Inr a, w1) \<and> f a w1 = (Inl e, w')"
    then obtain a w1 where "f a w1 = (Inl e, w')" by blast
    with assms(2) [of a] show ?thesis by (rule only_issues_error)
  qed
qed

lemma only_issues_shell: "P (Shell c) \<Longrightarrow> only_issues P (shell ex c)"
  unfolding shell_def
  by (intro only_issues_then_do only_issues_shell_output only_issues_done)

lemma only_issues_for_each:
  "(\<And>x. only_issues P (body x)) \<Longrightarrow> only_issues P (for_each xs body)"
  by (induction xs) (auto intro: only_issues_done only_issues_then_do)

lemma only_issues_container_exists:
  "only_issues listing_or_removal (container_exists self ex n)"
  unfolding container_exists_def
  by (intro only_issues_then_do only_issues_shell_output only_issues_done) simp

lemma only_issues_delete_container:
  "only_issues listing_or_removal (delete_container_if_exists self ex n)"
  unfolding delete_container_if_exists_def
  by (intro only_issues_then_do only_issues_container_exists)
     (auto intro: only_issues_shell only_issues_done)

lemma only_issues_delete_fatman:
  "only_issues listing_or_removal (delete_fatman self cl ex n v)"
  unfolding delete_fatman_def Let_def
  by (intro only_issues_for_each only_issues_delete_container)

lemma only_issues_fatman_exists:
  "only_issues listing_or_removal (fatman_exists self cl ex n v)"
  unfolding fatman_exists_def Let_def by (rule only_issues_container_exists)

lemma only_issues_delete_previous:
  "only_issues listing_or_removal (delete_previous self cl ex manifest)"
  unfolding delete_previous_def
  by (intro only_issues_then_do only_issues_fatman_exists)
     (auto intro: only_issues_delete_fatman only_issues_done)

lemma only_issues_get_next_fatman_port:
  "only_issues listing_or_removal (get_next_fatman_port self ex)"
  unfolding get_next_fatman_port_def
  by (intro only_issues_then_do only_issues_shell_output only_issues_done) simp

lemma only_issues_prepare_deploy:
  "only_issues listing_or_removal (prepare_deploy self cl ex manifest)"
  unfolding prepare_deploy_def
  by (intro only_issues_then_do only_issues_delete_previous only_issues_get_next_fatman_port)

section \<open>The outcomes of a deployment\<close>

lemma shell_result:
  "shell ex c w = (r, w') \<Longrightarrow>
     events w' = events w @ [Shell c] \<and> host w' = snd (ex c (host w)) \<and>
     r = (case fst (ex c (host w)) of Inl rc \<Rightarrow> Inl (CommandError c rc) | Inr out \<Rightarrow> Inr ())"
  by (auto simp: shell_def then_do_def done_with_def shell_output_def split: prod.splits sum.splits)

lemma create_network_result:
  "create_network self ex w = (r, w') \<Longrightarrow>
     events w' = events w @ [Shell (NetworkCreate (docker_host (infra_config self)))] \<and>
     (\<forall>e. r = Inl e \<longrightarrow> is_command_error e)"
  by (auto simp: create_network_def shell_def then_do_def done_with_def shell_output_def
           split: prod.splits sum.splits error.splits if_splits)

lemma for_each_shell_events:
  "for_each xs (\<lambda>x. shell ex (g x)) w = (r, w') \<Longrightarrow>
     \<exists>k \<le> length xs. events w' = events w @ map (\<lambda>x. Shell (g x)) (take k xs) \<and>
        ((\<exists>e. r = Inl e \<and> is_command_error e) \<or> (r = Inr () \<and> k = length xs))"
proof (induction xs arbitrary: w)
  case Nil
  then show ?case by (simp add: done_with_def)
next
  case (Cons x xs)
  from Cons.prems have "then_do (shell ex (g x)) (\<lambda>_. for_each xs (\<lambda>x. shell ex (g x))) w = (r, w')"
    by simp
  from then_do_cases [OF this] show ?case
  proof
    assume "\<exists>e. shell ex (g x) w = (Inl e, w') \<and> r = Inl e"
    then obtain e where e: "shell ex (g x) w = (Inl e, w')" "r = Inl e" by blast
    from shell_result [OF e(1)] have ev: "events w' = events w @ map (\<lambda>x. Shell (g x)) (take 1 (x # xs))"
      and "is_command_error e"
      by (auto split: sum.splits)
    with e(2) show ?thesis by (intro exI [of _ 1]) simp
  next
    assume "\<exists>a w1. shell ex (g x) w = (Inr a, w1) \<and> for_each xs (\<lambda>x. shell ex (g x)) w1 = (r, w')"
    then obtain a w1 where s: "shell ex (g x) w = (Inr a, w1)"
      and f: "for_each xs (\<lambda>x. shell ex (g x)) w1 = (r, w')" by blast
    from Cons.IH [OF f] obtain k where k: "k \<le> length xs"
      "events w' = events w1 @ map (\<lambda>x. Shell (g x)) (take k xs)"
      "(\<exists>e. r = Inl e \<and> is_command_error e) \<or> (r = Inr () \<and> k = length xs)"
      by blast
    from shell_result [OF s] have "events w1 = events w @ [Shell (g x)]" by simp
    with k show ?thesis by (intro exI [of _ "Suc k"]) simp
  qed
qed

lemma deploy_fatman_cases:
  assumes "deploy_fatman self cl ex manifest config tag runtime_env_vars family_name containers_num w = (r, w')"
  defines "base \<equiv> fatman_resource_name cl (manifest_name manifest) (manifest_version manifest)"
  defines "common \<equiv> common_env_vars cl config manifest family_name base containers_num"
  defines "env \<equiv> merge_plugin_vars (merge_env_vars runtime_env_vars common) (plugin_hook_result cl)"
  shows "(\<exists>e. prepare_deploy self cl ex manifest w = (Inl e, w') \<and> r = Inl e)
       \<or> (\<exists>port. prepare_deploy self cl ex manifest w = (Inr port, w') \<and>
             \<not> truthy (hostname (infra_config self)) \<and>
             r = Inl (AssertionError ''hostname of a docker daemon must be set''))
       \<or> (\<exists>port. prepare_deploy self cl ex manifest w = (Inr port, w') \<and>
             truthy (hostname (infra_config self)) \<and> conflicts common runtime_env_vars \<noteq> {} \<and>
             r = Inl (RuntimeError (conflicts common runtime_env_vars)))
       \<or> (\<exists>port w1. prepare_deploy self cl ex manifest w = (Inr port, w1) \<and>
             truthy (hostname (infra_config self)) \<and> conflicts common runtime_env_vars = {} \<and>
             (\<exists>k \<le> length (range_upto containers_num).
                 events w' = events w1 @
                   [PluginHook, Shell (NetworkCreate (docker_host (infra_config self)))] @
                   map (\<lambda>i. Shell (run_command self cl manifest config tag base port env i))
                       (take k (range_upto containers_num)) \<and>
                 ((\<exists>e. r = Inl e \<and> is_command_error e) \<or>
                  (k = length (range_upto containers_num) \<and>
                   r = Inr (deployed_dto self manifest tag (timestamp_now cl)
                              (host_and_port (hostname (infra_config self)) port))))))"
proof -
  note d = assms(1) [unfolded deploy_fatman_def Let_def, folded base_def, folded common_def]
  from then_do_cases [OF d] show ?thesis
  proof
    assume "\<exists>e. prepare_deploy self cl ex manifest w = (Inl e, w') \<and> r = Inl e"
    then show ?thesis by blast
  next
    assume "\<exists>a w1. prepare_deploy self cl ex manifest w = (Inr a, w1) \<and>
      (if \<not> truthy (hostname (infra_config self))
       then raise (AssertionError ''hostname of a docker daemon must be set'')
       else then_do (compose_env_vars cl runtime_env_vars common)
          (\<lambda>env. then_do (create_network self ex)
             (\<lambda>_. then_do (launch_containers self cl ex manifest config tag base a env containers_num)
                (\<lambda>_. done_with (deployed_dto self manifest tag (timestamp_now cl)
                              (host_and_port (hostname (infra_config self)) a)))))) w1 = (r, w')"
    then obtain port w1 where p: "prepare_deploy self cl ex manifest w = (Inr port, w1)"
      and rest: "(if \<not> truthy (hostname (infra_config self))
       then raise (AssertionError ''hostname of a docker daemon must be set'')
       else then_do (compose_env_vars cl runtime_env_vars common)
          (\<lambda>env. then_do (create_network self ex)
             (\<lambda>_. then_do (launch_containers self cl ex manifest config tag base port env containers_num)
                (\<lambda>_. done_with (deployed_dto self manifest tag (timestamp_now cl)
                              (host_and_port (hostname (infra_config self)) port)))))) w1 = (r, w')"
      by blast
    show ?thesis
    proof (cases "truthy (hostname (infra_config self))")
      case False
      with rest p show ?thesis by (auto simp: raise_def)
    next
      case hn: True
      show ?thesis
      proof (cases "conflicts common runtime_env_vars = {}")
        case False
        with rest p hn show ?thesis
          by (auto simp: raise_def compose_env_vars_def then_do_def)
      next
        case nc: True
        define w1h where "w1h = w1\<lparr>events := events w1 @ [PluginHook]\<rparr>"
        have comp: "compose_env_vars cl runtime_env_vars common w1 = (Inr env, w1h)"
          using nc by (simp add: compose_env_vars_def then_do_def invoke_plugin_hook_def
              done_with_def env_def w1h_def)
        have step: "then_do (compose_env_vars cl runtime_env_vars common) F w1 = F env w1h"
          for F :: "env_vars \<Rightarrow> ('a, fatman_dto) action"
          by (simp add: then_do_def comp)
        from rest hn have rest2: "then_do (create_network self ex)
             (\<lambda>_. then_do (launch_containers self cl ex manifest config tag base port env containers_num)
                (\<lambda>_. done_with (deployed_dto self manifest tag (timestamp_now cl)
                              (host_and_port (hostname (infra_config self)) port)))) w1h = (r, w')"
          by (simp add: step)
        from then_do_cases [OF rest2] show ?thesis
        proof
          assume "\<exists>e. create_network self ex w1h = (Inl e, w') \<and> r = Inl e"
          then obtain e where e: "create_network self ex w1h = (Inl e, w')" "r = Inl e" by blast
          from create_network_result [OF e(1)]
          have "events w' = events w1 @ [PluginHook, Shell (NetworkCreate (docker_host (infra_config self)))] @
                   map (\<lambda>i. Shell (run_command self cl manifest config tag base port env i))
                       (take 0 (range_upto containers_num))"
            and "is_command_error e"
            by (simp_all add: w1h_def)
          with p hn nc e(2) show ?thesis by blast
        next
          assume "\<exists>a w2. create_network self ex w1h = (Inr a, w2) \<and>
            then_do (launch_containers self cl ex manifest config tag base port env containers_num)
                (\<lambda>_. done_with (deployed_dto self manifest tag (timestamp_now cl)
                              (host_and_port (hostname (infra_config self)) port))) w2 = (r, w')"
          then obtain a w2 where cn: "create_network self ex w1h = (Inr a, w2)"
            and rest3: "then_do (launch_containers self cl ex manifest config tag base port env containers_num)
                (\<lambda>_. done_with (deployed_dto self manifest tag (timestamp_now cl)
                              (host_and_port (hostname (infra_config self)) port))) w2 = (r, w')"
            by blast
          from create_network_result [OF cn]
          have ev2: "events w2 = events w1 @ [PluginHook, Shell (NetworkCreate (docker_host (infra_config self)))]"
            by (simp add: w1h_def)
          from then_do_cases [OF rest3]
          obtain rl where l: "launch_containers self cl ex manifest config tag base port env containers_num w2 = (rl, w')"
            and rl: "(\<exists>e. rl = Inl e \<and> r = Inl e) \<or> (rl = Inr () \<and>
                       r = Inr (deployed_dto self manifest tag (timestamp_now cl)
                              (host_and_port (hostname (infra_config self)) port)))"
            by (auto simp: done_with_def)
          from for_each_shell_events [OF l [unfolded launch_containers_def]]
          obtain k where k: "k \<le> length (range_upto containers_num)"
            "events w' = events w2 @
                   map (\<lambda>i. Shell (run_command self cl manifest config tag base port env i))
                       (take k (range_upto containers_num))"
            "(\<exists>e. rl = Inl e \<and> is_command_error e) \<or> (rl = Inr () \<and> k = length (range_upto containers_num))"
            by blast
          from rl k(3) have "(\<exists>e. r = Inl e \<and> is_command_error e) \<or>
                  (k = length (range_upto containers_num) \<and>
                   r = Inr (deployed_dto self manifest tag (timestamp_now cl)
                              (host_and_port (hostname (infra_config self)) port)))"
            by auto
          moreover from k(2) ev2 have "events w' = events w1 @
                   [PluginHook, Shell (NetworkCreate (docker_host (infra_config self)))] @
                   map (\<lambda>i. Shell (run_command self cl manifest config tag base port env i))
                       (take k (range_upto containers_num))" by simp
          ultimately show ?thesis using p hn nc k(1) by blast
        qed
      qed
    qed
  qed
qed

end
